theory Spec2Isabelle
  imports Complex_Main
begin

section \<open>The input controller of the tree scene\<close>

text \<open>
  A shallow embedding of \<^verbatim>\<open>src/components/InputController.tsx\<close>. The component keeps four
  references (\<^verbatim>\<open>pointers\<close>, \<^verbatim>\<open>lastCentroid\<close>, \<^verbatim>\<open>lastDistance\<close>, \<^verbatim>\<open>lastPrimary\<close>) and
  writes to the values of the tree context through their setters. Each handler becomes a
  function from the controller's state and the event to the new state.

  The handlers are embedded twice. In the first embedding a JavaScript \<^verbatim>\<open>number\<close> is a
  \<^typ>\<open>real\<close>: arithmetic is exact, and there is neither rounding nor \<^verbatim>\<open>NaN\<close> nor an
  infinity. It carries the properties about what a handler computes and about the
  references, where doubles differ from it by rounding only. The second embedding, further
  down, adds the overflow of doubles to an infinity and \<^verbatim>\<open>NaN\<close>; it carries the property
  that the accumulators stay in their intervals, which depends on them. A \<^verbatim>\<open>pointerId\<close>
  is an \<^typ>\<open>int\<close>.
\<close>

subsection \<open>Helpers\<close>

text \<open>\<^verbatim>\<open>const clamp = (value, min, max) => Math.min(Math.max(value, min), max)\<close>\<close>

definition clamp :: "real \<Rightarrow> real \<Rightarrow> real \<Rightarrow> real" where
  "clamp v lo hi = min (max v lo) hi"

text \<open>\<^verbatim>\<open>Math.hypot(a, b)\<close>\<close>

definition hypot :: "real \<Rightarrow> real \<Rightarrow> real" where
  "hypot a b = sqrt (a * a + b * b)"

record point =
  pt_x :: real
  pt_y :: real

text \<open>The value of \<^verbatim>\<open>lastPrimary\<close>: \<^verbatim>\<open>{ id, x, y }\<close>.\<close>

record primary =
  prim_id :: int
  prim_x :: real
  prim_y :: real

text \<open>
  \<^verbatim>\<open>window.innerWidth\<close> and \<^verbatim>\<open>window.innerHeight\<close>, read when an event is handled.
\<close>

record viewport =
  innerWidth :: real
  innerHeight :: real

text \<open>
  \<^verbatim>\<open>normalize = (x, y) => ({ x: x / window.innerWidth, y: y / window.innerHeight })\<close>.
  For a window of width or height 0 JavaScript yields an infinity or \<^verbatim>\<open>NaN\<close>, where the
  division of \<^typ>\<open>real\<close> yields 0; no property below depends on the quotient's value.
\<close>

definition normalize :: "viewport \<Rightarrow> real \<Rightarrow> real \<Rightarrow> point" where
  "normalize w x y = \<lparr>pt_x = x / innerWidth w, pt_y = y / innerHeight w\<rparr>"

subsection \<open>The pointer tracker: a JavaScript Map\<close>

text \<open>
  A \<^verbatim>\<open>Map\<close> iterates in insertion order, and \<^verbatim>\<open>set\<close> on a key that is present replaces
  the value where it stands. The tracker is therefore an association list with one entry
  per key.
\<close>

type_synonym tracker = "(int \<times> point) list"

fun map_set :: "int \<Rightarrow> point \<Rightarrow> tracker \<Rightarrow> tracker" where
  "map_set k v [] = [(k, v)]"
| "map_set k v ((k', v') # m) = (if k' = k then (k, v) # m else (k', v') # map_set k v m)"

fun map_delete :: "int \<Rightarrow> tracker \<Rightarrow> tracker" where
  "map_delete k [] = []"
| "map_delete k ((k', v') # m) = (if k' = k then m else (k', v') # map_delete k m)"

definition map_has :: "int \<Rightarrow> tracker \<Rightarrow> bool" where
  "map_has k m = (k \<in> set (map fst m))"

text \<open>\<^verbatim>\<open>Array.from(pointers.current.values())\<close>\<close>

definition map_values :: "tracker \<Rightarrow> point list" where
  "map_values m = map snd m"

subsection \<open>Events\<close>

text \<open>
  The fields of the DOM events that the handlers read. \<^verbatim>\<open>PointerEvent\<close> and
  \<^verbatim>\<open>WheelEvent\<close> both extend \<^verbatim>\<open>MouseEvent\<close>.
\<close>

record mouse_event =
  clientX :: real
  clientY :: real
  buttons :: nat
  movementX :: real

record pointer_event = mouse_event +
  pointerId :: int
  pointerType :: string

record wheel_event = mouse_event +
  deltaY :: real

subsection \<open>State\<close>

text \<open>
  Modelled from the spec: the type of the context's \<^verbatim>\<open>state\<close>, declared in
  \<^verbatim>\<open>src/types\<close>, which is not among the sources. The spec gives InteractionState two
  named variants, and the handler names them \<^verbatim>\<open>'CHAOS'\<close> and \<^verbatim>\<open>'FORMED'\<close>.
\<close>

datatype tree_state = CHAOS | FORMED

text \<open>
  The first four fields are the component's references; the others are the values of the
  tree context that the component writes through \<^verbatim>\<open>setPointer\<close>, \<^verbatim>\<open>setHoverProgress\<close>,
  \<^verbatim>\<open>setClickTrigger\<close>, \<^verbatim>\<open>setPanOffset\<close>, \<^verbatim>\<open>setRotationBoost\<close>, \<^verbatim>\<open>setZoomOffset\<close> and
  \<^verbatim>\<open>setState\<close>. A setter called with a function applies it to the current value.
\<close>

record controller =
  pointers :: tracker
  lastCentroid :: "point option"
  lastDistance :: "real option"
  lastPrimary :: "primary option"
  pointer :: "point option"
  hoverProgress :: real
  clickTrigger :: real
  panOffset :: point
  rotationBoost :: real
  zoomOffset :: real
  state :: tree_state

subsection \<open>Handlers\<close>

definition handlePointerDown :: "viewport \<Rightarrow> controller \<Rightarrow> pointer_event \<Rightarrow> controller" where
  "handlePointerDown w s e =
    (let ps = map_set (pointerId e) \<lparr>pt_x = clientX e, pt_y = clientY e\<rparr> (pointers s);
         s1 = s\<lparr>pointers := ps,
                lastPrimary := Some \<lparr>prim_id = pointerId e, prim_x = clientX e, prim_y = clientY e\<rparr>,
                pointer := Some (normalize w (clientX e) (clientY e))\<rparr>
     in if length ps = 2 then
          (let pts = map_values ps
           in s1\<lparr>lastCentroid :=
                    Some \<lparr>pt_x = (pt_x (pts ! 0) + pt_x (pts ! 1)) / 2,
                          pt_y = (pt_y (pts ! 0) + pt_y (pts ! 1)) / 2\<rparr>,
                  lastDistance :=
                    Some (hypot (pt_x (pts ! 0) - pt_x (pts ! 1)) (pt_y (pts ! 0) - pt_y (pts ! 1)))\<rparr>)
        else s1)"

text \<open>\<^verbatim>\<open>event.buttons !== 0 || event.pointerType === 'touch'\<close>\<close>

definition isDragging :: "pointer_event \<Rightarrow> bool" where
  "isDragging e = (buttons e \<noteq> 0 \<or> pointerType e = ''touch'')"

text \<open>\<^verbatim>\<open>prev ? event.clientX - prev.x : event.movementX\<close>\<close>

definition drag_dx :: "primary option \<Rightarrow> pointer_event \<Rightarrow> real" where
  "drag_dx prev e = (case prev of Some p \<Rightarrow> clientX e - prim_x p | None \<Rightarrow> movementX e)"

text \<open>The mean of the samples: \<^verbatim>\<open>pts.reduce((sum, p) => sum + p.x, 0) / pts.length\<close>.\<close>

definition centroid_of :: "point list \<Rightarrow> point" where
  "centroid_of pts =
     \<lparr>pt_x = foldl (\<lambda>sum p. sum + pt_x p) 0 pts / real (length pts),
      pt_y = foldl (\<lambda>sum p. sum + pt_y p) 0 pts / real (length pts)\<rparr>"

definition handlePointerMove :: "viewport \<Rightarrow> controller \<Rightarrow> pointer_event \<Rightarrow> controller" where
  "handlePointerMove w s e =
    (if \<not> map_has (pointerId e) (pointers s) then s
     else
      let ps = map_set (pointerId e) \<lparr>pt_x = clientX e, pt_y = clientY e\<rparr> (pointers s);
          s1 = s\<lparr>pointers := ps, pointer := Some (normalize w (clientX e) (clientY e))\<rparr>
      in if length ps = 1 \<and> isDragging e then
           (let dx = drag_dx (lastPrimary s1) e
            in s1\<lparr>lastPrimary :=
                     Some \<lparr>prim_id = pointerId e, prim_x = clientX e, prim_y = clientY e\<rparr>,
                   rotationBoost := clamp (rotationBoost s1 - dx * 0.01) (-3) 3\<rparr>)
         else if length ps \<ge> 2 then
           (let pts = map_values ps;
                centroid = centroid_of pts;
                s2 = (case lastCentroid s1 of
                        Some c \<Rightarrow>
                          (let deltaX = pt_x centroid - pt_x c;
                               deltaY = pt_y centroid - pt_y c
                           in s1\<lparr>panOffset :=
                                   \<lparr>pt_x = clamp (pt_x (panOffset s1) + deltaX * 0.02) (-15) 15,
                                    pt_y = clamp (pt_y (panOffset s1) - deltaY * 0.02) (-10) 10\<rparr>\<rparr>)
                      | None \<Rightarrow> s1);
                s3 = s2\<lparr>lastCentroid := Some centroid\<rparr>;
                dist = hypot (pt_x (pts ! 0) - pt_x (pts ! 1)) (pt_y (pts ! 0) - pt_y (pts ! 1));
                s4 = (case lastDistance s3 of
                        Some d \<Rightarrow>
                          (let delta = dist - d
                           in s3\<lparr>zoomOffset := clamp (zoomOffset s3 - delta * 0.01) (-20) 40\<rparr>)
                      | None \<Rightarrow> s3)
            in s4\<lparr>lastDistance := Some dist\<rparr>)
         else s1\<lparr>lastCentroid := None, lastDistance := None\<rparr>)"

text \<open>
  \<^verbatim>\<open>handlePointerUp\<close> serves both \<^verbatim>\<open>pointerup\<close> and \<^verbatim>\<open>pointercancel\<close>. The first entry
  of a tracker that is not empty is \<^verbatim>\<open>Array.from(pointers.current.entries())[0]\<close>.
\<close>

definition handlePointerUp :: "viewport \<Rightarrow> controller \<Rightarrow> pointer_event \<Rightarrow> controller" where
  "handlePointerUp w s e =
    (let ps = map_delete (pointerId e) (pointers s);
         s1 = s\<lparr>pointers := ps\<rparr>
     in case ps of
          [] \<Rightarrow> s1\<lparr>pointer := None, lastCentroid := None, lastDistance := None,
                  lastPrimary := None\<rparr>
        | (firstId, firstPoint) # _ \<Rightarrow>
            s1\<lparr>pointer := Some (normalize w (pt_x firstPoint) (pt_y firstPoint)),
               lastPrimary :=
                 Some \<lparr>prim_id = firstId, prim_x = pt_x firstPoint, prim_y = pt_y firstPoint\<rparr>\<rparr>)"

definition handleWheel :: "viewport \<Rightarrow> controller \<Rightarrow> wheel_event \<Rightarrow> controller" where
  "handleWheel w s e =
     s\<lparr>pointer := Some (normalize w (clientX e) (clientY e)),
       zoomOffset := clamp (zoomOffset s - deltaY e * 0.002) (-20) 40\<rparr>"

text \<open>The second argument is the value of \<^verbatim>\<open>Date.now()\<close>.\<close>

definition handleClick :: "viewport \<Rightarrow> controller \<Rightarrow> mouse_event \<Rightarrow> real \<Rightarrow> controller" where
  "handleClick w s e now =
     s\<lparr>pointer := Some (normalize w (clientX e) (clientY e)),
       clickTrigger := now,
       hoverProgress := 0\<rparr>"

text \<open>\<^verbatim>\<open>(prev) => (prev === 'CHAOS' ? 'FORMED' : 'CHAOS')\<close>\<close>

definition toggle :: "tree_state \<Rightarrow> tree_state" where
  "toggle prev = (if prev = CHAOS then FORMED else CHAOS)"

definition handleDoubleClick :: "controller \<Rightarrow> controller" where
  "handleDoubleClick s = s\<lparr>state := toggle (state s)\<rparr>"

text \<open>
  The function that the interval passes to \<^verbatim>\<open>setRotationBoost\<close> every 16 ms:
  \<^verbatim>\<open>(prev) => { if (Math.abs(prev) < 0.001) return 0; return prev * 0.94; }\<close>
\<close>

definition decay :: "real \<Rightarrow> real" where
  "decay prev = (if \<bar>prev\<bar> < 0.001 then 0 else prev * 0.94)"

definition handleDecayTick :: "controller \<Rightarrow> controller" where
  "handleDecayTick s = s\<lparr>rotationBoost := decay (rotationBoost s)\<rparr>"

subsection \<open>Dispatch\<close>

text \<open>
  The listeners registered on \<^verbatim>\<open>window\<close> and the interval. The handlers run one at a
  time, each to its end, in the order in which the host delivers the events.
\<close>

datatype event =
    PointerDown pointer_event
  | PointerMove pointer_event
  | PointerUp pointer_event
  | PointerCancel pointer_event
  | Wheel wheel_event
  | Click mouse_event real
  | DoubleClick
  | DecayTick

fun dispatch :: "viewport \<Rightarrow> controller \<Rightarrow> event \<Rightarrow> controller" where
  "dispatch w s (PointerDown e) = handlePointerDown w s e"
| "dispatch w s (PointerMove e) = handlePointerMove w s e"
| "dispatch w s (PointerUp e) = handlePointerUp w s e"
| "dispatch w s (PointerCancel e) = handlePointerUp w s e"
| "dispatch w s (Wheel e) = handleWheel w s e"
| "dispatch w s (Click e now) = handleClick w s e now"
| "dispatch w s DoubleClick = handleDoubleClick s"
| "dispatch w s DecayTick = handleDecayTick s"

text \<open>A run: every event comes with the window's size at that moment.\<close>

fun run :: "controller \<Rightarrow> (viewport \<times> event) list \<Rightarrow> controller" where
  "run s [] = s"
| "run s ((w, e) # es) = run (dispatch w s e) es"

text \<open>
  The references as the component creates them: an empty \<^verbatim>\<open>Map\<close> and three
  \<^verbatim>\<open>null\<close>s. The context's values are whatever the provider holds.
\<close>

definition refs_initial :: "controller \<Rightarrow> bool" where
  "refs_initial s \<longleftrightarrow>
     pointers s = [] \<and> lastCentroid s = None \<and> lastDistance s = None \<and> lastPrimary s = None"

subsection \<open>Properties and example inputs\<close>


text \<open>A tracker that is not empty has a single-pointer reference.\<close>

definition primary_known :: "controller \<Rightarrow> bool" where
  "primary_known s \<longleftrightarrow> (pointers s = [] \<or> lastPrimary s \<noteq> None)"

text \<open>
  Inputs for the examples: a window of 1000 by 500 pixels, the component as it is
  mounted with the context's values at rest, and a touch contact at a position.
\<close>

definition example_window :: viewport where
  "example_window = \<lparr>innerWidth = 1000, innerHeight = 500\<rparr>"

definition example_start :: controller where
  "example_start =
     \<lparr>pointers = [], lastCentroid = None, lastDistance = None, lastPrimary = None,
      pointer = None, hoverProgress = 0, clickTrigger = 0,
      panOffset = \<lparr>pt_x = 0, pt_y = 0\<rparr>, rotationBoost = 0, zoomOffset = 0,
      state = FORMED\<rparr>"

definition touch_at :: "int \<Rightarrow> real \<Rightarrow> real \<Rightarrow> pointer_event" where
  "touch_at i x y =
     \<lparr>clientX = x, clientY = y, buttons = 0, movementX = 0, pointerId = i,
      pointerType = ''touch''\<rparr>"

text \<open>A mouse pointer at a position, with the given buttons held.\<close>

definition mouse_at :: "int \<Rightarrow> nat \<Rightarrow> real \<Rightarrow> real \<Rightarrow> pointer_event" where
  "mouse_at i bs x y =
     \<lparr>clientX = x, clientY = y, buttons = bs, movementX = 0, pointerId = i,
      pointerType = ''mouse''\<rparr>"

text \<open>One finger down at \<open>(300, 120)\<close>.\<close>

definition example_one_down :: controller where
  "example_one_down = dispatch example_window example_start (PointerDown (touch_at 1 300 120))"

text \<open>Two fingers down, at \<open>(100, 100)\<close> and at \<open>(200, 100)\<close>.\<close>

definition example_two_down :: controller where
  "example_two_down =
     run example_start
       [(example_window, PointerDown (touch_at 1 100 100)),
        (example_window, PointerDown (touch_at 2 200 100))]"

text \<open>
  Two states that differ at most in \<^verbatim>\<open>lastCentroid\<close> and \<^verbatim>\<open>lastDistance\<close>, and the
  relation between two runs that such a difference cannot tell apart: the states are the
  same but for the two references, and are the same altogether once two pointers are
  tracked.
\<close>

definition same_but_refs :: "controller \<Rightarrow> controller \<Rightarrow> bool" where
  "same_but_refs s t \<longleftrightarrow>
     s\<lparr>lastCentroid := None, lastDistance := None\<rparr> = t\<lparr>lastCentroid := None, lastDistance := None\<rparr>"

definition unobserved :: "controller \<Rightarrow> controller \<Rightarrow> bool" where
  "unobserved s t \<longleftrightarrow> same_but_refs s t \<and> (length (pointers s) < 2 \<or> s = t)"

text \<open>The second finger of \<open>example_two_down\<close> lifted.\<close>

definition example_released :: controller where
  "example_released = dispatch example_window example_two_down (PointerUp (touch_at 2 200 100))"

subsection \<open>The handlers over doubles that overflow\<close>









































section \<open>Helper lemmas\<close>

lemma map_set_not_Nil: "map_set k v m \<noteq> []"
  by (induction k v m rule: map_set.induct) auto

lemma length_map_set: "map_has k m \<Longrightarrow> length (map_set k v m) = length m"
  by (induction m) (force simp: map_has_def)+

lemma example_one_down_eq:
  "example_one_down =
     example_start\<lparr>pointers := [(1, \<lparr>pt_x = 300, pt_y = 120\<rparr>)],
       lastPrimary := Some \<lparr>prim_id = 1, prim_x = 300, prim_y = 120\<rparr>,
       pointer := Some \<lparr>pt_x = 3 / 10, pt_y = 6 / 25\<rparr>\<rparr>"
  by (simp add: example_one_down_def example_start_def example_window_def touch_at_def
      handlePointerDown_def normalize_def Let_def)

lemma example_two_down_eq:
  "example_two_down =
     example_start\<lparr>pointers := [(1, \<lparr>pt_x = 100, pt_y = 100\<rparr>), (2, \<lparr>pt_x = 200, pt_y = 100\<rparr>)],
       lastCentroid := Some \<lparr>pt_x = 150, pt_y = 100\<rparr>,
       lastDistance := Some 100,
       lastPrimary := Some \<lparr>prim_id = 2, prim_x = 200, prim_y = 100\<rparr>,
       pointer := Some \<lparr>pt_x = 1 / 5, pt_y = 1 / 5\<rparr>\<rparr>"
  by (simp add: example_two_down_def example_start_def example_window_def touch_at_def
      handlePointerDown_def normalize_def Let_def map_values_def hypot_def)

subsection \<open>The decay\<close>

lemma run_decay:
  "rotationBoost (run s (replicate n (w, DecayTick))) = (decay ^^ n) (rotationBoost s)"
  by (induction n arbitrary: s) (simp_all add: handleDecayTick_def funpow_swap1)

lemma decay_zero: "(decay ^^ n) 0 = 0"
  by (induction n) (simp_all add: decay_def)

lemma decay_pow:
  "(\<forall>k<n. 0.001 \<le> (0.94::real) ^ k) \<Longrightarrow> (decay ^^ n) 1 = 0.94 ^ n"
proof (induction n)
  case 0
  show ?case by simp
next
  case (Suc n)
  have "(decay ^^ n) 1 = 0.94 ^ n" using Suc by simp
  moreover have "0.001 \<le> (0.94::real) ^ n" using Suc.prems by simp
  then have "\<not> \<bar>(0.94::real) ^ n\<bar> < 0.001" by simp
  then have "decay (0.94 ^ n) = 0.94 ^ n * 0.94" by (simp only: decay_def if_False)
  ultimately show ?case by (simp only: funpow.simps o_apply power_Suc mult.commute)
qed

lemma pow_111: "0.001 \<le> (0.94::real) ^ 111"
  by (simp add: power_divide)

lemma pow_112: "(0.94::real) ^ 112 < 0.001"
  by (simp add: power_divide)

lemma pow_le_112: "k < 112 \<Longrightarrow> 0.001 \<le> (0.94::real) ^ k"
proof -
  assume "k < 112"
  then have "(0.94::real) ^ 111 \<le> 0.94 ^ k"
    by (intro power_decreasing) simp_all
  with pow_111 show ?thesis by linarith
qed

lemma decay_rest: "n > 112 \<Longrightarrow> (decay ^^ n) 1 = 0"
proof -
  assume "n > 112"
  then obtain k where n: "n = k + Suc 112"
    by (metis add.commute add_Suc_right less_imp_Suc_add)
  have "(decay ^^ 112) 1 = 0.94 ^ 112" by (rule decay_pow) (blast intro: pow_le_112)
  then have "(decay ^^ Suc 112) 1 = 0"
    using pow_112 by (simp only: funpow.simps o_apply decay_def abs_of_pos zero_less_power) simp
  then have "(decay ^^ (k + Suc 112)) 1 = (decay ^^ k) 0" by (simp only: funpow_add o_apply)
  then show ?thesis by (simp only: n decay_zero)
qed

subsection \<open>The single-pointer reference, handler by handler\<close>

lemma down_primary_known: "primary_known (handlePointerDown w s e)"
  by (simp add: handlePointerDown_def primary_known_def Let_def)

lemma move_primary_known: "primary_known s \<Longrightarrow> primary_known (handlePointerMove w s e)"
  by (auto simp: handlePointerMove_def primary_known_def Let_def map_set_not_Nil map_has_def
      split: option.split)

lemma up_primary_known: "primary_known (handlePointerUp w s e)"
  by (simp add: handlePointerUp_def primary_known_def Let_def split: list.split)

lemma dispatch_primary_known: "primary_known s \<Longrightarrow> primary_known (dispatch w s e)"
  by (cases e)
    (simp_all add: down_primary_known move_primary_known up_primary_known,
      simp_all add: primary_known_def handleWheel_def handleClick_def handleDoubleClick_def
        handleDecayTick_def)

lemma run_primary_known: "primary_known s \<Longrightarrow> primary_known (run s es)"
  by (induction es arbitrary: s) (auto simp: dispatch_primary_known)

subsection \<open>A two-pointer gesture, step by step\<close>
















subsection \<open>The two multi-pointer references are read only with two pointers tracked\<close>

lemma same_but_refs_fields:
  "same_but_refs s t \<longleftrightarrow>
     pointers s = pointers t \<and> lastPrimary s = lastPrimary t \<and> pointer s = pointer t
     \<and> hoverProgress s = hoverProgress t \<and> clickTrigger s = clickTrigger t
     \<and> panOffset s = panOffset t \<and> rotationBoost s = rotationBoost t
     \<and> zoomOffset s = zoomOffset t \<and> state s = state t"
  by (cases s, cases t) (auto simp: same_but_refs_def)

lemma unobserved_refl: "unobserved s s"
  by (simp add: unobserved_def same_but_refs_def)

lemma length_map_set_le: "length (map_set k v m) \<le> Suc (length m)"
  by (induction k v m rule: map_set.induct) auto

lemma length_map_delete_le: "length (map_delete k m) \<le> length m"
  by (induction k m rule: map_delete.induct) auto

lemma unobservedI:
  "same_but_refs s t \<Longrightarrow> length (pointers s) < 2 \<Longrightarrow> unobserved s t"
  by (simp add: unobserved_def)

lemma down_unobserved:
  assumes "same_but_refs s t" and "length (pointers s) < 2"
  shows "unobserved (handlePointerDown w s e) (handlePointerDown w t e)"
proof -
  let ?ps = "map_set (pointerId e) \<lparr>pt_x = clientX e, pt_y = clientY e\<rparr> (pointers s)"
  have eq: "pointers t = pointers s"
    using assms(1) by (simp add: same_but_refs_fields)
  have "length ?ps \<le> 2"
    using length_map_set_le [of "pointerId e" "\<lparr>pt_x = clientX e, pt_y = clientY e\<rparr>" "pointers s"]
      assms(2) by linarith
  then consider "length ?ps = 2" | "length ?ps < 2" by linarith
  then show ?thesis
  proof cases
    case 1
    then have "handlePointerDown w s e = handlePointerDown w t e"
      using assms(1) by (cases s, cases t) (simp add: handlePointerDown_def Let_def same_but_refs_def)
    then show ?thesis by (simp add: unobserved_refl)
  next
    case 2
    then have "length ?ps \<noteq> 2" by simp
    then have "same_but_refs (handlePointerDown w s e) (handlePointerDown w t e)"
      using assms(1) by (simp add: handlePointerDown_def Let_def same_but_refs_fields)
    moreover have "length (pointers (handlePointerDown w s e)) < 2"
      using 2 by (simp add: handlePointerDown_def Let_def)
    ultimately show ?thesis by (rule unobservedI)
  qed
qed

lemma move_unobserved:
  assumes "same_but_refs s t" and "length (pointers s) < 2"
  shows "unobserved (handlePointerMove w s e) (handlePointerMove w t e)"
proof (cases "map_has (pointerId e) (pointers s)")
  case False
  then show ?thesis
    using assms by (simp add: handlePointerMove_def same_but_refs_fields unobserved_def)
next
  case True
  let ?ps = "map_set (pointerId e) \<lparr>pt_x = clientX e, pt_y = clientY e\<rparr> (pointers s)"
  have len: "length ?ps = length (pointers s)"
    using True by (rule length_map_set)
  then have small: "\<not> 2 \<le> length ?ps"
    using assms(2) by simp
  have "same_but_refs (handlePointerMove w s e) (handlePointerMove w t e)"
    using assms(1) True small
    by (simp add: handlePointerMove_def Let_def same_but_refs_fields)
  moreover have "length (pointers (handlePointerMove w s e)) < 2"
    using True small by (simp add: handlePointerMove_def Let_def)
  ultimately show ?thesis by (rule unobservedI)
qed

lemma up_unobserved:
  assumes "same_but_refs s t" and "length (pointers s) < 2"
  shows "unobserved (handlePointerUp w s e) (handlePointerUp w t e)"
proof -
  have "same_but_refs (handlePointerUp w s e) (handlePointerUp w t e)"
    using assms(1)
    by (simp add: handlePointerUp_def Let_def same_but_refs_fields split: list.split)
  moreover have "pointers (handlePointerUp w s e) = map_delete (pointerId e) (pointers s)"
    by (simp add: handlePointerUp_def Let_def split: list.split)
  then have "length (pointers (handlePointerUp w s e)) < 2"
    using length_map_delete_le [of "pointerId e" "pointers s"] assms(2) by simp
  ultimately show ?thesis by (rule unobservedI)
qed

lemma dispatch_unobserved:
  assumes "unobserved s t"
  shows "unobserved (dispatch w s e) (dispatch w t e)"
proof (cases "s = t")
  case True
  then show ?thesis by (simp add: unobserved_refl)
next
  case False
  with assms have same: "same_but_refs s t" and small: "length (pointers s) < 2"
    by (auto simp: unobserved_def)
  show ?thesis
  proof (cases e)
    case (PointerDown x)
    then show ?thesis using same small by (simp add: down_unobserved)
  next
    case (PointerMove x)
    then show ?thesis using same small by (simp add: move_unobserved)
  next
    case (PointerUp x)
    then show ?thesis using same small by (simp add: up_unobserved)
  next
    case (PointerCancel x)
    then show ?thesis using same small by (simp add: up_unobserved)
  next
    case (Wheel x)
    then show ?thesis using same small
      by (simp add: unobserved_def same_but_refs_fields handleWheel_def)
  next
    case (Click x now)
    then show ?thesis using same small
      by (simp add: unobserved_def same_but_refs_fields handleClick_def)
  next
    case DoubleClick
    then show ?thesis using same small
      by (simp add: unobserved_def same_but_refs_fields handleDoubleClick_def)
  next
    case DecayTick
    then show ?thesis using same small
      by (simp add: unobserved_def same_but_refs_fields handleDecayTick_def)
  qed
qed

lemma run_unobserved: "unobserved s t \<Longrightarrow> unobserved (run s es) (run t es)"
  by (induction es arbitrary: s t) (auto simp: dispatch_unobserved)

subsection \<open>The examples\<close>

lemma example_released_eq:
  "example_released =
     example_start\<lparr>pointers := [(1, \<lparr>pt_x = 100, pt_y = 100\<rparr>)],
       lastCentroid := Some \<lparr>pt_x = 150, pt_y = 100\<rparr>,
       lastDistance := Some 100,
       lastPrimary := Some \<lparr>prim_id = 1, prim_x = 100, prim_y = 100\<rparr>,
       pointer := Some \<lparr>pt_x = 1 / 10, pt_y = 1 / 5\<rparr>\<rparr>"
  by (simp add: example_released_def example_two_down_eq example_start_def example_window_def
      touch_at_def handlePointerUp_def normalize_def Let_def)

lemma run_one_down:
  "run example_start [(example_window, PointerDown (touch_at 1 300 120))] = example_one_down"
  by (simp add: example_one_down_def)

subsection \<open>Doubles that overflow: sums and differences within bounds stay finite\<close>


















lemma set_map_delete: "set (map_values (map_delete k m)) \<subseteq> set (map_values m)"
  by (induction k m rule: map_delete.induct) (auto simp: map_values_def)

lemma hd_map_delete:
  "map_delete k m = (i, p) # rest \<Longrightarrow> p \<in> set (map_values m)"
  using set_map_delete [of k m] by (auto simp: map_values_def)












section \<open>The claims\<close>




text \<open>
  C2. A move of a tracked pointer, with one pointer in the tracker and a button held or a
  touch contact, adds \<open>-dx * 0.01\<close> to \<^verbatim>\<open>rotationBoost\<close> and clamps to \<open>[-3, 3]\<close>: the new
  value is the smaller of 3 and the larger of \<open>-3\<close> and the sum. Here \<open>dx\<close> is the
  horizontal distance from the single-pointer reference, or the event's \<^verbatim>\<open>movementX\<close>
  where there is no reference; the reference becomes the new position. From \<open>x = 300\<close> to
  \<open>x = 280\<close> the adjustment is \<open>+0.2\<close>, cut off at 3.
\<close>

theorem single_pointer_drag:
  assumes "pointerId e \<in> fst ` set (pointers s)"
    and "length (pointers s) = 1"
    and "buttons e \<noteq> 0 \<or> pointerType e = ''touch''"
  shows "rotationBoost (dispatch w s (PointerMove e)) =
           min (max (rotationBoost s
                    - (case lastPrimary s of Some p \<Rightarrow> clientX e - prim_x p | None \<Rightarrow> movementX e)
                      * 0.01) (-3)) 3
    \<and> -3 \<le> rotationBoost (dispatch w s (PointerMove e))
    \<and> rotationBoost (dispatch w s (PointerMove e)) \<le> 3
    \<and> lastPrimary (dispatch w s (PointerMove e)) =
           Some \<lparr>prim_id = pointerId e, prim_x = clientX e, prim_y = clientY e\<rparr>
    \<and> ((\<exists>p. lastPrimary s = Some p \<and> prim_x p = 300) \<and> clientX e = 280 \<longrightarrow>
           rotationBoost (dispatch w s (PointerMove e)) = min (max (rotationBoost s + 0.2) (-3)) 3)"
proof -
  have tracked: "map_has (pointerId e) (pointers s)"
    using assms(1) by (simp add: map_has_def)
  have len: "length (map_set (pointerId e) \<lparr>pt_x = clientX e, pt_y = clientY e\<rparr> (pointers s)) = 1"
    using tracked assms(2) by (simp add: length_map_set)
  have drag: "isDragging e"
    using assms(3) by (simp add: isDragging_def)
  show ?thesis
    using tracked len drag
    by (auto simp: handlePointerMove_def Let_def drag_dx_def clamp_def)
qed

theorem single_pointer_drag_witness:
  "pointerId (touch_at 1 280 120) \<in> fst ` set (pointers example_one_down)
   \<and> length (pointers example_one_down) = 1
   \<and> pointerType (touch_at 1 280 120) = ''touch''
   \<and> lastPrimary example_one_down = Some \<lparr>prim_id = 1, prim_x = 300, prim_y = 120\<rparr>
   \<and> rotationBoost example_one_down = 0
   \<and> rotationBoost (dispatch example_window example_one_down (PointerMove (touch_at 1 280 120)))
       = 0.2
   \<and> lastPrimary (dispatch example_window example_one_down (PointerMove (touch_at 1 280 120)))
       = Some \<lparr>prim_id = 1, prim_x = 280, prim_y = 120\<rparr>
   \<and> rotationBoost (dispatch example_window (example_one_down\<lparr>rotationBoost := 2.9\<rparr>)
         (PointerMove (touch_at 1 280 120))) = 3
   \<and> rotationBoost (dispatch example_window (example_one_down\<lparr>rotationBoost := - 2.9\<rparr>)
         (PointerMove (touch_at 1 320 120))) = - 3"
  using single_pointer_drag [of "touch_at 1 280 120" example_one_down example_window]
    single_pointer_drag [of "touch_at 1 280 120" "example_one_down\<lparr>rotationBoost := 2.9\<rparr>"
      example_window]
    single_pointer_drag [of "touch_at 1 320 120" "example_one_down\<lparr>rotationBoost := - 2.9\<rparr>"
      example_window]
  by (simp add: example_one_down_eq example_start_def touch_at_def)




text \<open>
  C4. A decay tick maps a \<^verbatim>\<open>rotationBoost\<close> of absolute value below \<open>0.001\<close> to 0 and any
  other to \<open>0.94\<close> times itself. So 0 stays 0 under any number of ticks, and a boost of 1
  is \<open>0.94 ^ n\<close> after \<open>n\<close> ticks as long as the values before each tick were at least
  \<open>0.001\<close>: that is for \<open>n \<le> 112\<close>, and from the 113th tick on the boost is 0.
\<close>

theorem decay_tick:
  "rotationBoost (dispatch w s DecayTick) =
     (if \<bar>rotationBoost s\<bar> < 0.001 then 0 else rotationBoost s * 0.94)
   \<and> (rotationBoost s = 0 \<longrightarrow> rotationBoost (run s (replicate n (w, DecayTick))) = 0)
   \<and> (rotationBoost s = 1 \<and> (\<forall>k<n. 0.001 \<le> (0.94::real) ^ k) \<longrightarrow>
        rotationBoost (run s (replicate n (w, DecayTick))) = 0.94 ^ n)
   \<and> (rotationBoost s = 1 \<and> n \<le> 112 \<longrightarrow>
        rotationBoost (run s (replicate n (w, DecayTick))) = 0.94 ^ n)
   \<and> (rotationBoost s = 1 \<and> 112 < n \<longrightarrow>
        rotationBoost (run s (replicate n (w, DecayTick))) = 0)"
proof (intro conjI impI)
  show "rotationBoost (dispatch w s DecayTick) =
     (if \<bar>rotationBoost s\<bar> < 0.001 then 0 else rotationBoost s * 0.94)"
    by (simp add: handleDecayTick_def decay_def)
next
  assume "rotationBoost s = 0"
  then show "rotationBoost (run s (replicate n (w, DecayTick))) = 0"
    by (simp only: run_decay decay_zero)
next
  assume "rotationBoost s = 1 \<and> (\<forall>k<n. 0.001 \<le> (0.94::real) ^ k)"
  then have "rotationBoost s = 1" and "(decay ^^ n) 1 = 0.94 ^ n"
    by (blast, blast intro: decay_pow)
  then show "rotationBoost (run s (replicate n (w, DecayTick))) = 0.94 ^ n"
    by (simp only: run_decay)
next
  assume a: "rotationBoost s = 1 \<and> n \<le> 112"
  have "\<forall>k<n. 0.001 \<le> (0.94::real) ^ k"
  proof (intro allI impI)
    fix k
    assume "k < n"
    with a have "k < 112" by linarith
    then show "0.001 \<le> (0.94::real) ^ k" by (rule pow_le_112)
  qed
  then have "(decay ^^ n) 1 = 0.94 ^ n"
    by (rule decay_pow)
  with a show "rotationBoost (run s (replicate n (w, DecayTick))) = 0.94 ^ n"
    by (simp only: run_decay)
next
  assume "rotationBoost s = 1 \<and> 112 < n"
  then have "rotationBoost s = 1" and "(decay ^^ n) 1 = 0"
    by (blast, blast intro: decay_rest)
  then show "rotationBoost (run s (replicate n (w, DecayTick))) = 0"
    by (simp only: run_decay)
qed

theorem decay_tick_witness:
  "rotationBoost (run example_start (replicate 5 (example_window, DecayTick))) = 0
   \<and> 0.001 \<le> (0.94::real) ^ 2
   \<and> rotationBoost (run (example_start\<lparr>rotationBoost := 1\<rparr>) (replicate 3 (example_window, DecayTick)))
       = 0.830584
   \<and> rotationBoost (run (example_start\<lparr>rotationBoost := 1\<rparr>) (replicate 113 (example_window, DecayTick)))
       = 0"
proof -
  have small: "\<forall>k<3. 0.001 \<le> (0.94::real) ^ k"
  proof (intro allI impI)
    fix k :: nat
    assume "k < 3"
    then have "k < 112" by simp
    then show "0.001 \<le> (0.94::real) ^ k" by (rule pow_le_112)
  qed
  have "(0.94::real) ^ 3 = 0.830584"
    by (simp add: power3_eq_cube)
  moreover have "0.001 \<le> (0.94::real) ^ 2"
    by (rule pow_le_112) simp
  ultimately show ?thesis
    using small
      decay_tick [of example_window example_start 5]
      decay_tick [of example_window "example_start\<lparr>rotationBoost := 1\<rparr>" 3]
      decay_tick [of example_window "example_start\<lparr>rotationBoost := 1\<rparr>" 113]
    by (simp add: example_start_def)
qed

text \<open>
  C5, as the claim states it, fails: lifting one of two fingers leaves one pointer in the
  tracker and the centroid \<open>(150, 100)\<close> and the distance 100 in the references, and a drag
  of the remaining finger leaves them there too.
\<close>

theorem references_kept_on_release:
  "length (pointers example_two_down) = 2
   \<and> example_released = dispatch example_window example_two_down (PointerUp (touch_at 2 200 100))
   \<and> length (pointers example_released) = 1
   \<and> lastCentroid example_released = Some \<lparr>pt_x = 150, pt_y = 100\<rparr>
   \<and> lastDistance example_released = Some 100
   \<and> lastCentroid (dispatch example_window example_released (PointerMove (touch_at 1 120 100)))
       = Some \<lparr>pt_x = 150, pt_y = 100\<rparr>
   \<and> lastDistance (dispatch example_window example_released (PointerMove (touch_at 1 120 100)))
       = Some 100"
proof -
  have two: "length (pointers example_two_down) = 2"
    by (simp add: example_two_down_eq example_start_def)
  have up: "example_released = dispatch example_window example_two_down (PointerUp (touch_at 2 200 100))"
    by (simp add: example_released_def)
  have one: "length (pointers example_released) = 1"
    and kept: "lastCentroid example_released = Some \<lparr>pt_x = 150, pt_y = 100\<rparr>"
      "lastDistance example_released = Some 100"
    by (simp_all add: example_released_eq example_start_def)
  have drag: "lastCentroid (dispatch example_window example_released (PointerMove (touch_at 1 120 100)))
       = Some \<lparr>pt_x = 150, pt_y = 100\<rparr>"
     "lastDistance (dispatch example_window example_released (PointerMove (touch_at 1 120 100)))
       = Some 100"
    by (simp_all add: example_released_eq example_start_def touch_at_def handlePointerMove_def
        map_has_def isDragging_def Let_def)
  from two up one kept drag show ?thesis
    by blast
qed

text \<open>
  C5, amended. With fewer than two pointers tracked, the values of \<^verbatim>\<open>lastCentroid\<close> and
  \<^verbatim>\<open>lastDistance\<close> have no influence on what follows: replace them by any values, and
  after any events every other field is the same, and the whole state is the same once
  two pointers are tracked again. So no multi-pointer move reads a reference from before
  the count fell below two. The references are cleared by a pointer-up that empties the
  tracker and by a move of a single tracked pointer that is not a drag; a pointer-up that
  leaves a pointer in the tracker leaves both references as they are.
\<close>

theorem stale_references_unobserved:
  assumes "length (pointers s) < 2"
  shows "(run (s\<lparr>lastCentroid := c, lastDistance := d\<rparr>) es)\<lparr>lastCentroid := None, lastDistance := None\<rparr>
           = (run s es)\<lparr>lastCentroid := None, lastDistance := None\<rparr>
    \<and> (2 \<le> length (pointers (run s es)) \<longrightarrow>
          run (s\<lparr>lastCentroid := c, lastDistance := d\<rparr>) es = run s es)
    \<and> (map_delete (pointerId e) (pointers u) = [] \<longrightarrow>
          lastCentroid (dispatch w u (PointerUp e)) = None
          \<and> lastDistance (dispatch w u (PointerUp e)) = None)
    \<and> (map_delete (pointerId e) (pointers u) \<noteq> [] \<longrightarrow>
          lastCentroid (dispatch w u (PointerUp e)) = lastCentroid u
          \<and> lastDistance (dispatch w u (PointerUp e)) = lastDistance u)
    \<and> (pointerId e \<in> fst ` set (pointers s) \<and> \<not> isDragging e \<longrightarrow>
          lastCentroid (dispatch w s (PointerMove e)) = None
          \<and> lastDistance (dispatch w s (PointerMove e)) = None)"
proof (intro conjI impI)
  have "same_but_refs s (s\<lparr>lastCentroid := c, lastDistance := d\<rparr>)"
    by (simp add: same_but_refs_def)
  then have "unobserved s (s\<lparr>lastCentroid := c, lastDistance := d\<rparr>)"
    using assms by (rule unobservedI)
  then have u: "unobserved (run s es) (run (s\<lparr>lastCentroid := c, lastDistance := d\<rparr>) es)"
    by (rule run_unobserved)
  then show "(run (s\<lparr>lastCentroid := c, lastDistance := d\<rparr>) es)\<lparr>lastCentroid := None, lastDistance := None\<rparr>
           = (run s es)\<lparr>lastCentroid := None, lastDistance := None\<rparr>"
    by (simp add: unobserved_def same_but_refs_def)
  show "run (s\<lparr>lastCentroid := c, lastDistance := d\<rparr>) es = run s es"
    if "2 \<le> length (pointers (run s es))"
    using u that by (auto simp: unobserved_def)
next
  assume "map_delete (pointerId e) (pointers u) = []"
  then show "lastCentroid (dispatch w u (PointerUp e)) = None"
    and "lastDistance (dispatch w u (PointerUp e)) = None"
    by (simp_all add: handlePointerUp_def)
next
  assume "map_delete (pointerId e) (pointers u) \<noteq> []"
  then show "lastCentroid (dispatch w u (PointerUp e)) = lastCentroid u"
    and "lastDistance (dispatch w u (PointerUp e)) = lastDistance u"
    by (simp_all add: handlePointerUp_def Let_def split: list.split)
next
  assume a: "pointerId e \<in> fst ` set (pointers s) \<and> \<not> isDragging e"
  then have has: "map_has (pointerId e) (pointers s)"
    by (simp add: map_has_def)
  then have "length (map_set (pointerId e) \<lparr>pt_x = clientX e, pt_y = clientY e\<rparr> (pointers s)) < 2"
    using assms by (simp add: length_map_set)
  then show "lastCentroid (dispatch w s (PointerMove e)) = None"
    and "lastDistance (dispatch w s (PointerMove e)) = None"
    using a has by (simp_all add: handlePointerMove_def Let_def)
qed

theorem stale_references_unobserved_witness:
  "length (pointers example_released) < 2
   \<and> lastCentroid example_released = Some \<lparr>pt_x = 150, pt_y = 100\<rparr>
   \<and> 2 \<le> length (pointers (run example_released
        [(example_window, PointerDown (touch_at 2 300 100)),
         (example_window, PointerMove (touch_at 2 400 100))]))
   \<and> run (example_released\<lparr>lastCentroid := None, lastDistance := None\<rparr>)
        [(example_window, PointerDown (touch_at 2 300 100)),
         (example_window, PointerMove (touch_at 2 400 100))]
       = run example_released
        [(example_window, PointerDown (touch_at 2 300 100)),
         (example_window, PointerMove (touch_at 2 400 100))]
   \<and> map_delete (pointerId (touch_at 1 100 100)) (pointers example_released) = []
   \<and> lastCentroid (dispatch example_window example_released (PointerUp (touch_at 1 100 100))) = None
   \<and> map_delete (pointerId (touch_at 2 200 100)) (pointers example_two_down) \<noteq> []
   \<and> lastCentroid (dispatch example_window example_two_down (PointerUp (touch_at 2 200 100)))
       = Some \<lparr>pt_x = 150, pt_y = 100\<rparr>
   \<and> pointerId (mouse_at 1 0 120 100) \<in> fst ` set (pointers example_released)
   \<and> \<not> isDragging (mouse_at 1 0 120 100)
   \<and> lastCentroid (dispatch example_window example_released (PointerMove (mouse_at 1 0 120 100)))
       = None
   \<and> lastDistance (dispatch example_window example_released (PointerMove (mouse_at 1 0 120 100)))
       = None"
proof -
  have hover: "pointerId (mouse_at 1 0 120 100) \<in> fst ` set (pointers example_released)"
    "\<not> isDragging (mouse_at 1 0 120 100)"
    by (simp_all add: example_released_eq example_start_def mouse_at_def isDragging_def)
  have small: "length (pointers example_released) < 2"
    by (simp add: example_released_eq example_start_def)
  have two: "length (pointers (run example_released
        [(example_window, PointerDown (touch_at 2 300 100)),
         (example_window, PointerMove (touch_at 2 400 100))])) = 2"
    by (simp add: example_released_eq example_start_def touch_at_def handlePointerDown_def
        handlePointerMove_def map_has_def Let_def)
  have gone: "map_delete (pointerId (touch_at 1 100 100)) (pointers example_released) = []"
    by (simp add: example_released_eq example_start_def touch_at_def)
  have c: "lastCentroid example_released = Some \<lparr>pt_x = 150, pt_y = 100\<rparr>"
    "lastCentroid example_two_down = Some \<lparr>pt_x = 150, pt_y = 100\<rparr>"
    by (simp_all add: example_released_eq example_two_down_eq example_start_def)
  have stays: "map_delete (pointerId (touch_at 2 200 100)) (pointers example_two_down) \<noteq> []"
    by (simp add: example_two_down_eq example_start_def touch_at_def)
  show ?thesis
    using small two gone c hover stays
      stale_references_unobserved [OF small, of None None
        "[(example_window, PointerDown (touch_at 2 300 100)),
          (example_window, PointerMove (touch_at 2 400 100))]" "touch_at 1 100 100"
        example_released example_window]
      stale_references_unobserved [OF small, of None None "[]" "touch_at 2 200 100"
        example_two_down example_window]
      stale_references_unobserved [OF small, of None None "[]" "mouse_at 1 0 120 100"
        example_released example_window]
    by simp
qed

text \<open>
  C6. Pointer-up and pointer-cancel remove the pointer from the tracker. Where the tracker
  is empty afterwards, the pointer signal and the three references are cleared. Where it
  is not, its first entry becomes the single-pointer reference and that entry's
  normalized position is the pointer signal; with two pointers tracked, releasing one
  emits the other's position.
\<close>

theorem pointer_up_effect:
  "pointers (dispatch w s (PointerUp e)) = map_delete (pointerId e) (pointers s)
   \<and> (map_delete (pointerId e) (pointers s) = [] \<longrightarrow>
        pointer (dispatch w s (PointerUp e)) = None
        \<and> lastCentroid (dispatch w s (PointerUp e)) = None
        \<and> lastDistance (dispatch w s (PointerUp e)) = None
        \<and> lastPrimary (dispatch w s (PointerUp e)) = None)
   \<and> (\<forall>i p rest. map_delete (pointerId e) (pointers s) = (i, p) # rest \<longrightarrow>
        lastPrimary (dispatch w s (PointerUp e)) =
          Some \<lparr>prim_id = i, prim_x = pt_x p, prim_y = pt_y p\<rparr>
        \<and> pointer (dispatch w s (PointerUp e)) = Some (normalize w (pt_x p) (pt_y p)))
   \<and> (\<forall>a b p q. pointers s = [(a, p), (b, q)] \<and> a \<noteq> b \<longrightarrow>
        (pointerId e = a \<longrightarrow>
           pointer (dispatch w s (PointerUp e)) = Some (normalize w (pt_x q) (pt_y q)))
        \<and> (pointerId e = b \<longrightarrow>
           pointer (dispatch w s (PointerUp e)) = Some (normalize w (pt_x p) (pt_y p))))
   \<and> dispatch w s (PointerCancel e) = dispatch w s (PointerUp e)"
  by (auto simp: handlePointerUp_def Let_def split: list.splits)

theorem pointer_up_effect_witness:
  "map_delete (pointerId (touch_at 1 300 120)) (pointers example_one_down) = []
   \<and> pointer (dispatch example_window example_one_down (PointerUp (touch_at 1 300 120))) = None
   \<and> lastPrimary (dispatch example_window example_one_down (PointerUp (touch_at 1 300 120))) = None
   \<and> map_delete (pointerId (touch_at 1 100 100)) (pointers example_two_down)
       = [(2, \<lparr>pt_x = 200, pt_y = 100\<rparr>)]
   \<and> lastPrimary (dispatch example_window example_two_down (PointerUp (touch_at 1 100 100)))
       = Some \<lparr>prim_id = 2, prim_x = 200, prim_y = 100\<rparr>
   \<and> pointer (dispatch example_window example_two_down (PointerUp (touch_at 1 100 100)))
       = Some \<lparr>pt_x = 1 / 5, pt_y = 1 / 5\<rparr>
   \<and> pointer (dispatch example_window example_two_down (PointerUp (touch_at 2 200 100)))
       = Some \<lparr>pt_x = 1 / 10, pt_y = 1 / 5\<rparr>
   \<and> pointer (dispatch example_window example_two_down (PointerCancel (touch_at 2 200 100)))
       = Some \<lparr>pt_x = 1 / 10, pt_y = 1 / 5\<rparr>"
  using pointer_up_effect [of example_window example_one_down "touch_at 1 300 120"]
    pointer_up_effect [of example_window example_two_down "touch_at 1 100 100"]
    pointer_up_effect [of example_window example_two_down "touch_at 2 200 100"]
  by (simp add: example_one_down_eq example_two_down_eq example_start_def touch_at_def
      normalize_def example_window_def)

text \<open>
  C7. A pointer-move whose identifier is not in the tracker changes nothing: the state
  after it is the state before it, references and context values alike.
\<close>

theorem move_unknown_noop:
  "pointerId e \<notin> fst ` set (pointers s) \<Longrightarrow> dispatch w s (PointerMove e) = s"
  by (simp add: handlePointerMove_def map_has_def)

theorem move_unknown_noop_witness:
  "pointerId (touch_at 2 50 60) \<notin> fst ` set (pointers example_one_down)
   \<and> dispatch example_window example_one_down (PointerMove (touch_at 2 50 60))
       = example_one_down"
  using move_unknown_noop [of "touch_at 2 50 60" example_one_down example_window]
  by (simp add: example_one_down_eq example_start_def touch_at_def)

text \<open>
  C8. A double-click sets the interaction state to the other of its two values and touches
  nothing else, so two double-clicks give back the state they started from.
\<close>

theorem double_click_twice:
  "dispatch w' (dispatch w s DoubleClick) DoubleClick = s
   \<and> state (dispatch w s DoubleClick) \<noteq> state s
   \<and> state (dispatch w s DoubleClick) = (if state s = CHAOS then FORMED else CHAOS)"
  by (cases "state s") (simp_all add: handleDoubleClick_def toggle_def)

theorem double_click_twice_witness:
  "state example_start = FORMED
   \<and> state (dispatch example_window example_start DoubleClick) = CHAOS
   \<and> dispatch example_window (dispatch example_window example_start DoubleClick) DoubleClick
       = example_start"
  using double_click_twice [of example_window example_window example_start]
  by (simp add: example_start_def)

text \<open>
  C9. A wheel event, whatever the tracker holds, sets the pointer signal to the event's
  normalized position and \<^verbatim>\<open>zoomOffset\<close> to its old value minus \<open>deltaY * 0.002\<close>,
  clamped to \<open>[-20, 40]\<close>; every other field keeps its value.
\<close>

theorem wheel_effect:
  "dispatch w s (Wheel e) =
     s\<lparr>pointer := Some (normalize w (clientX e) (clientY e)),
       zoomOffset := clamp (zoomOffset s - deltaY e * 0.002) (-20) 40\<rparr>
   \<and> pointer (dispatch w s (Wheel e)) =
       Some \<lparr>pt_x = clientX e / innerWidth w, pt_y = clientY e / innerHeight w\<rparr>
   \<and> zoomOffset (dispatch w s (Wheel e)) = min (max (zoomOffset s - deltaY e * 0.002) (-20)) 40"
  by (simp add: handleWheel_def normalize_def clamp_def)

theorem wheel_effect_witness:
  "pointers example_start = []
   \<and> zoomOffset (dispatch example_window example_start
        (Wheel \<lparr>clientX = 500, clientY = 250, buttons = 0, movementX = 0, deltaY = 100\<rparr>)) = - 0.2
   \<and> pointer (dispatch example_window example_start
        (Wheel \<lparr>clientX = 500, clientY = 250, buttons = 0, movementX = 0, deltaY = 100\<rparr>))
       = Some \<lparr>pt_x = 1 / 2, pt_y = 1 / 2\<rparr>"
  using wheel_effect [of example_window example_start
      "\<lparr>clientX = 500, clientY = 250, buttons = 0, movementX = 0, deltaY = 100\<rparr>"]
  by (simp add: example_start_def example_window_def handleWheel_def clamp_def normalize_def)

text \<open>
  C10. From the references as the component creates them, after any events, a tracker
  that is not empty comes with a single-pointer reference. A move that takes the drag
  branch therefore reads its \<open>dx\<close> from the reference, never from the event's
  \<^verbatim>\<open>movementX\<close>.
\<close>

theorem primary_reference_present:
  assumes "refs_initial s"
  shows "(pointers (run s es) \<noteq> [] \<longrightarrow> lastPrimary (run s es) \<noteq> None)
    \<and> (pointerId e \<in> fst ` set (pointers (run s es)) \<and> length (pointers (run s es)) = 1
        \<and> isDragging e \<longrightarrow>
        (\<exists>p. lastPrimary (run s es) = Some p
          \<and> drag_dx (lastPrimary (run s es)) e = clientX e - prim_x p
          \<and> rotationBoost (dispatch w (run s es) (PointerMove e)) =
              clamp (rotationBoost (run s es) - (clientX e - prim_x p) * 0.01) (-3) 3))"
proof -
  define t where "t = run s es"
  have "primary_known s"
    using assms by (simp add: refs_initial_def primary_known_def)
  then have known: "primary_known t"
    unfolding t_def by (rule run_primary_known)
  then have first: "pointers t \<noteq> [] \<longrightarrow> lastPrimary t \<noteq> None"
    by (auto simp: primary_known_def)
  have second: "\<exists>p. lastPrimary t = Some p
          \<and> drag_dx (lastPrimary t) e = clientX e - prim_x p
          \<and> rotationBoost (dispatch w t (PointerMove e)) =
              clamp (rotationBoost t - (clientX e - prim_x p) * 0.01) (-3) 3"
    if tracked: "pointerId e \<in> fst ` set (pointers t)" and one: "length (pointers t) = 1"
      and drag: "isDragging e"
  proof -
    from one have "pointers t \<noteq> []" by auto
    with first obtain p where p: "lastPrimary t = Some p" by auto
    have has: "map_has (pointerId e) (pointers t)"
      using tracked by (simp add: map_has_def)
    then have len: "length (map_set (pointerId e) \<lparr>pt_x = clientX e, pt_y = clientY e\<rparr> (pointers t)) = 1"
      using one by (simp add: length_map_set)
    have "rotationBoost (dispatch w t (PointerMove e)) =
              clamp (rotationBoost t - (clientX e - prim_x p) * 0.01) (-3) 3"
      using has len drag p by (simp add: handlePointerMove_def Let_def drag_dx_def)
    with p show ?thesis by (simp add: drag_dx_def)
  qed
  show ?thesis
    unfolding t_def [symmetric] using first second by blast
qed

theorem primary_reference_present_witness:
  "refs_initial example_start
   \<and> pointers (run example_start [(example_window, PointerDown (touch_at 1 300 120))]) \<noteq> []
   \<and> lastPrimary (run example_start [(example_window, PointerDown (touch_at 1 300 120))]) \<noteq> None
   \<and> pointerId (touch_at 1 280 120)
       \<in> fst ` set (pointers (run example_start [(example_window, PointerDown (touch_at 1 300 120))]))
   \<and> length (pointers (run example_start [(example_window, PointerDown (touch_at 1 300 120))])) = 1
   \<and> isDragging (touch_at 1 280 120)
   \<and> drag_dx (lastPrimary (run example_start [(example_window, PointerDown (touch_at 1 300 120))]))
        (touch_at 1 280 120) = - 20"
  using primary_reference_present [of example_start
      "[(example_window, PointerDown (touch_at 1 300 120))]" "touch_at 1 280 120" example_window]
  unfolding run_one_down
  by (simp add: refs_initial_def example_one_down_eq
      example_start_def touch_at_def isDragging_def drag_dx_def)

end
